theory Spec2Isabelle
  imports Main "HOL-Library.Char_ord" "HOL-Library.List_Lexorder" "HOL-Library.Sublist"
begin

section \<open>Values of the Python program\<close>

text \<open>
  The detector of \<^verbatim>\<open>arduino_detector.py\<close> works on what \<^verbatim>\<open>json.loads\<close> returns: dicts,
  lists, strings, numbers, booleans and \<^verbatim>\<open>None\<close>. A dict is an association list; the
  binding of a key is its first entry (\<open>map_of\<close>). The code never computes with a number,
  so one constructor stands for \<^verbatim>\<open>int\<close> and \<^verbatim>\<open>float\<close> alike.

  A string is a list of characters. An Isabelle character is one of the code points
  0 to 255, so the model covers the Latin-1 part of Python's \<^verbatim>\<open>str\<close>.
\<close>

datatype json =
    JNull
  | JBool bool
  | JNum int
  | JStr string
  | JArr "json list"
  | JObj "(string \<times> json) list"

type_synonym dict = "(string \<times> json) list"

text \<open>
  The exceptions the program can meet. \<^verbatim>\<open>get_usb_device_info\<close> catches the first three
  (line 112); the others leave it.
\<close>

datatype exn =
    CalledProcessError
  | JSONDecodeError
  | KeyError
  | FileNotFoundError
  | AttributeError
  | TypeError

subsection \<open>Strings\<close>

text \<open>
  \<^verbatim>\<open>str.lower()\<close> on the code points 0 to 255: the letters A to Z, and the Latin-1
  capitals U+00C0 to U+00DE without the multiplication sign U+00D7, move up by 32.
\<close>

definition lower_char :: "char \<Rightarrow> char" where
  "lower_char c =
     (let n = (of_char c :: nat)
      in if (65 \<le> n \<and> n \<le> 90) \<or> (192 \<le> n \<and> n \<le> 222 \<and> n \<noteq> 215)
         then char_of (n + 32) else c)"

definition lower :: "string \<Rightarrow> string" where
  "lower s = map lower_char s"

text \<open>\<^verbatim>\<open>needle in hay\<close> on two strings: \<open>needle\<close> occurs in \<open>hay\<close> as a contiguous run.\<close>

definition str_in :: "string \<Rightarrow> string \<Rightarrow> bool" where
  "str_in needle hay = sublist needle hay"

subsection \<open>Methods of JSON values\<close>

text \<open>\<^verbatim>\<open>d.get(k, default)\<close> on a dict.\<close>

definition dict_get :: "dict \<Rightarrow> string \<Rightarrow> json \<Rightarrow> json" where
  "dict_get d k dflt = (case map_of d k of Some v \<Rightarrow> v | None \<Rightarrow> dflt)"

text \<open>\<^verbatim>\<open>k in d\<close> on a dict.\<close>

definition dict_has :: "dict \<Rightarrow> string \<Rightarrow> bool" where
  "dict_has d k = (map_of d k \<noteq> None)"

text \<open>\<^verbatim>\<open>v.lower()\<close>: only a string has the method.\<close>

fun lower_method :: "json \<Rightarrow> exn + string" where
  "lower_method (JStr s) = Inr (lower s)"
| "lower_method _ = Inl AttributeError"

text \<open>
  \<^verbatim>\<open>for x in v\<close>: a list gives its elements, a dict its keys, a string its characters
  (each a string of length one); nothing else can be iterated.
\<close>

fun py_iter :: "json \<Rightarrow> exn + json list" where
  "py_iter (JArr xs) = Inr xs"
| "py_iter (JObj d) = Inr (map (\<lambda>kv. JStr (fst kv)) d)"
| "py_iter (JStr s) = Inr (map (\<lambda>c. JStr [c]) s)"
| "py_iter _ = Inl TypeError"

text \<open>A \<^verbatim>\<open>for\<close> loop whose body may raise: the first exception ends the loop.\<close>

fun for_loop :: "('a \<Rightarrow> 's \<Rightarrow> exn + 's) \<Rightarrow> 'a list \<Rightarrow> 's \<Rightarrow> exn + 's" where
  "for_loop body [] s = Inr s"
| "for_loop body (x # xs) s =
     (case body x s of Inl e \<Rightarrow> Inl e | Inr s' \<Rightarrow> for_loop body xs s')"

section \<open>The known chipset table\<close>

text \<open>\<^verbatim>\<open>ArduinoDetector.ARDUINO_IDS\<close>, lines 18 to 24.\<close>

definition ARDUINO_IDS :: "(string \<times> string) list" where
  "ARDUINO_IDS =
     [(''0x2341'', ''Arduino''),
      (''0x1a86'', ''CH340/CH341''),
      (''0x0403'', ''FTDI''),
      (''0x10c4'', ''Silicon Labs''),
      (''0x067b'', ''Prolific'')]"

section \<open>The USB topology classifier\<close>

text \<open>
  Lines 74 to 76: the three normalised locals \<^verbatim>\<open>vendor_id\<close>, \<^verbatim>\<open>product_id\<close> and
  \<^verbatim>\<open>product_name\<close> of one loop iteration, in the order the source computes them.
\<close>

definition normalized :: "dict \<Rightarrow> exn + (string \<times> string \<times> string)" where
  "normalized item =
     (case lower_method (dict_get item ''vendor_id'' (JStr '''')) of
        Inl e \<Rightarrow> Inl e
      | Inr vendor_id \<Rightarrow>
         (case lower_method (dict_get item ''product_id'' (JStr '''')) of
            Inl e \<Rightarrow> Inl e
          | Inr product_id \<Rightarrow>
             (case lower_method (dict_get item ''_name'' (JStr '''')) of
                Inl e \<Rightarrow> Inl e
              | Inr product_name \<Rightarrow> Inr (vendor_id, product_id, product_name))))"

text \<open>Lines 79 to 86: the local \<^verbatim>\<open>is_arduino\<close>.\<close>

definition is_arduino :: "string \<Rightarrow> string \<Rightarrow> bool" where
  "is_arduino vendor_id product_name =
     (map_of ARDUINO_IDS vendor_id \<noteq> None \<or>
      str_in ''arduino'' product_name \<or>
      str_in ''serial'' product_name \<or>
      str_in ''ch340'' product_name \<or>
      str_in ''ftdi'' product_name \<or>
      str_in ''usb2.0-serial'' product_name)"

text \<open>Lines 89 to 98: the dict \<^verbatim>\<open>device_info\<close>, a record of its eight keys.\<close>

record device_info =
  name :: json
  vendor_id :: json
  product_id :: json
  version :: json
  speed :: json
  location_id :: json
  manufacturer :: string
  serial_number :: json

definition Unknown :: json where
  "Unknown = JStr ''Unknown''"

definition make_device_info :: "dict \<Rightarrow> string \<Rightarrow> device_info" where
  "make_device_info item vendor =
     \<lparr> name = dict_get item ''_name'' Unknown,
       vendor_id = dict_get item ''vendor_id'' Unknown,
       product_id = dict_get item ''product_id'' Unknown,
       version = dict_get item ''bcd_device'' Unknown,
       speed = dict_get item ''speed'' Unknown,
       location_id = dict_get item ''location_id'' Unknown,
       manufacturer = (case map_of ARDUINO_IDS vendor of Some m \<Rightarrow> m | None \<Rightarrow> ''Unknown''),
       serial_number = dict_get item ''serial_num'' Unknown \<rparr>"

text \<open>
  Lines 70 to 103: \<^verbatim>\<open>search_usb_tree\<close>. The closure variable \<^verbatim>\<open>arduino_devices\<close>, to
  which the source appends, is passed in and returned. The parameter \<^verbatim>\<open>parent_info\<close> is
  never read and is left out. An exception ends the traversal and is the result.
\<close>

lemma for_loop_cong [fundef_cong]:
  "xs = ys \<Longrightarrow> s = t \<Longrightarrow> (\<And>x u. x \<in> set ys \<Longrightarrow> f x u = g x u) \<Longrightarrow>
   for_loop f xs s = for_loop g ys t"
proof (induction ys arbitrary: xs s t)
  case Nil
  then show ?case by simp
next
  case (Cons y ys)
  then show ?case by (auto split: sum.splits)
qed

lemma size_map_of:
  "map_of d k = Some v \<Longrightarrow> size v < Suc (size_list (size_prod (\<lambda>_. 0) size) d)"
  by (induction d) (auto split: if_splits)

lemma py_iter_JObj_member:
  "py_iter items = Inr xs \<Longrightarrow> JObj d \<in> set xs \<Longrightarrow> size (JObj d) < size items"
  by (cases items) (auto simp: less_Suc_eq_le size_list_estimation')

function search_usb_tree :: "json \<Rightarrow> device_info list \<Rightarrow> exn + device_info list" where
  "search_usb_tree items arduino_devices =
     (case py_iter items of
        Inl e \<Rightarrow> Inl e
      | Inr xs \<Rightarrow>
          for_loop
            (\<lambda>item devices.
               case item of
                 JObj d \<Rightarrow>
                   (case normalized d of
                      Inl e \<Rightarrow> Inl e
                    | Inr (vendor_id', product_id', product_name') \<Rightarrow>
                        let devices' =
                              (if is_arduino vendor_id' product_name'
                               then devices @ [make_device_info d vendor_id']
                               else devices)
                        in (case map_of d ''_items'' of
                              None \<Rightarrow> Inr devices'
                            | Some children \<Rightarrow> search_usb_tree children devices'))
               | _ \<Rightarrow> Inl AttributeError)
            xs arduino_devices)"
  by pat_completeness auto
termination
proof (relation "measure (\<lambda>(items, devices). size items)", goal_cases)
  case 1
  then show ?case by simp
next
  case (2 items devs xs item u d vpn vendor pp pid pname devs' children)
  then show ?case
    using size_map_of[of d "''_items''" children] py_iter_JObj_member[of items xs d]
    by simp
qed

declare search_usb_tree.simps [simp del]

text \<open>
  The body of the loop of \<^verbatim>\<open>search_usb_tree\<close> (lines 73 to 103) for one item, named so
  that statements can speak of a single iteration; \<open>search_usb_tree_visit\<close> below shows
  that the function is the loop over this body.
\<close>

definition visit :: "json \<Rightarrow> device_info list \<Rightarrow> exn + device_info list" where
  "visit item devices =
     (case item of
        JObj d \<Rightarrow>
          (case normalized d of
             Inl e \<Rightarrow> Inl e
           | Inr (vendor_id', product_id', product_name') \<Rightarrow>
               let devices' =
                     (if is_arduino vendor_id' product_name'
                      then devices @ [make_device_info d vendor_id']
                      else devices)
               in (case map_of d ''_items'' of
                     None \<Rightarrow> Inr devices'
                   | Some children \<Rightarrow> search_usb_tree children devices'))
      | _ \<Rightarrow> Inl AttributeError)"

section \<open>Output\<close>

text \<open>
  What the program prints, one constructor for each \<^verbatim>\<open>print\<close> call of the source, with
  the values its f-string formats. The order of the constructors is the order of the
  source lines 113, 121, 137 to 175, 179, 180 and 186.
\<close>

datatype out_line =
    UsbInfoError exn
  | Scanning
  | BlankAndRule
  | Title
  | Rule
  | NoDevicesFound
  | TipsHeading
  | TipConnect
  | TipCable
  | TipPort
  | Found int
  | SerialPortsHeading nat
  | PortLine nat string
  | UsbDetailsHeading nat
  | DeviceHeading nat
  | NameLine json
  | ManufacturerLine string
  | VendorLine json
  | ProductLine json
  | VersionLine json
  | SpeedLine json
  | LocationLine json
  | SerialNumberLine json
  | UsageHeading
  | UsageHint
  | UsagePort string
  | ProgramName
  | ProgramPurpose
  | ClosingRule

section \<open>The USB-info collaborator\<close>

text \<open>
  Lines 60 to 67 run \<^verbatim>\<open>system_profiler SPUSBDataType -json\<close> and parse its output. The
  model takes the outcome as its input: the command cannot be started
  (\<^verbatim>\<open>subprocess.run\<close> raises \<^verbatim>\<open>FileNotFoundError\<close>), it exits non-zero (with
  \<^verbatim>\<open>check=True\<close>, \<^verbatim>\<open>CalledProcessError\<close>), its output is not JSON (\<^verbatim>\<open>json.loads\<close>
  raises \<^verbatim>\<open>JSONDecodeError\<close>), or the output parses to a value.
\<close>

datatype usb_info =
    Unreachable
  | NonZeroExit
  | Unparsable
  | Parsed json

fun run_and_load :: "usb_info \<Rightarrow> exn + json" where
  "run_and_load Unreachable = Inl FileNotFoundError"
| "run_and_load NonZeroExit = Inl CalledProcessError"
| "run_and_load Unparsable = Inl JSONDecodeError"
| "run_and_load (Parsed usb_data) = Inr usb_data"

text \<open>\<^verbatim>\<open>'_items' in bus\<close> (line 107), for whatever \<^verbatim>\<open>bus\<close> is.\<close>

fun items_in :: "json \<Rightarrow> exn + bool" where
  "items_in (JObj d) = Inr (dict_has d ''_items'')"
| "items_in (JStr s) = Inr (str_in ''_items'' s)"
| "items_in (JArr xs) = Inr (JStr ''_items'' \<in> set xs)"
| "items_in _ = Inl TypeError"

text \<open>\<^verbatim>\<open>bus['_items']\<close> (line 108): a string or a list takes integer indices only.\<close>

fun subscript_items :: "json \<Rightarrow> exn + json" where
  "subscript_items (JObj d) =
     (case map_of d ''_items'' of Some v \<Rightarrow> Inr v | None \<Rightarrow> Inl KeyError)"
| "subscript_items _ = Inl TypeError"

text \<open>Lines 105 to 108: the loop over the buses; only a bus's \<^verbatim>\<open>_items\<close> are searched.\<close>

definition search_bus :: "json \<Rightarrow> device_info list \<Rightarrow> exn + device_info list" where
  "search_bus bus arduino_devices =
     (case items_in bus of
        Inl e \<Rightarrow> Inl e
      | Inr False \<Rightarrow> Inr arduino_devices
      | Inr True \<Rightarrow>
          (case subscript_items bus of
             Inl e \<Rightarrow> Inl e
           | Inr items \<Rightarrow> search_usb_tree items arduino_devices))"

text \<open>Lines 59 to 110: the body of the \<^verbatim>\<open>try\<close> block.\<close>

definition try_body :: "usb_info \<Rightarrow> exn + device_info list" where
  "try_body u =
     (case run_and_load u of
        Inl e \<Rightarrow> Inl e
      | Inr usb_data \<Rightarrow>
          (case usb_data of
             JObj data \<Rightarrow>
               (case py_iter (dict_get data ''SPUSBDataType'' (JArr [])) of
                  Inl e \<Rightarrow> Inl e
                | Inr buses \<Rightarrow> for_loop search_bus buses [])
           | _ \<Rightarrow> Inl AttributeError))"

text \<open>Line 112: the exceptions the \<^verbatim>\<open>except\<close> clause names.\<close>

fun caught :: "exn \<Rightarrow> bool" where
  "caught CalledProcessError = True"
| "caught JSONDecodeError = True"
| "caught KeyError = True"
| "caught _ = False"

text \<open>
  Lines 53 to 114: \<^verbatim>\<open>get_usb_device_info\<close> returns what it printed and either the list
  of devices or the exception that leaves it.
\<close>

definition get_usb_device_info :: "usb_info \<Rightarrow> out_line list \<times> (exn + device_info list)" where
  "get_usb_device_info u =
     (case try_body u of
        Inr arduino_devices \<Rightarrow> ([], Inr arduino_devices)
      | Inl e \<Rightarrow> if caught e then ([UsbInfoError e], Inr []) else ([], Inl e))"

section \<open>The path scanner\<close>

text \<open>
  Lines 30 to 51. The filesystem is the function \<open>glob\<close>: what \<^verbatim>\<open>glob.glob\<close> returns for
  a pattern. \<^verbatim>\<open>list(set(xs))\<close> keeps one copy of each path in some order, and \<^verbatim>\<open>sorted\<close>
  then orders them, so the order chosen by \<open>remdups\<close> does not show.
\<close>

definition patterns :: "string list" where
  "patterns =
     [''/dev/cu.usbserial*'',
      ''/dev/cu.usbmodem*'',
      ''/dev/cu.wchusbserial*'',
      ''/dev/tty.usbserial*'',
      ''/dev/tty.usbmodem*'',
      ''/dev/tty.wchusbserial*'']"

definition get_serial_ports :: "(string \<Rightarrow> string list) \<Rightarrow> string list" where
  "get_serial_ports glob =
     (let usb_devices = fold (\<lambda>pattern usb_devices. usb_devices @ glob pattern) patterns []
      in sort (remdups usb_devices))"

section \<open>The report assembler\<close>

text \<open>Lines 129 to 133: the dict \<^verbatim>\<open>detect_arduino_devices\<close> returns.\<close>

record scan_result =
  serial_ports :: "string list"
  usb_devices :: "device_info list"
  total_devices :: int

text \<open>Lines 116 to 133.\<close>

definition detect_arduino_devices ::
  "(string \<Rightarrow> string list) \<Rightarrow> usb_info \<Rightarrow> out_line list \<times> (exn + scan_result)" where
  "detect_arduino_devices glob u =
     (let serial_ports' = get_serial_ports glob;
          (printed, r) = get_usb_device_info u
      in (Scanning # printed,
          case r of
            Inl e \<Rightarrow> Inl e
          | Inr usb_devices' \<Rightarrow>
              Inr \<lparr> serial_ports = serial_ports',
                    usb_devices = usb_devices',
                    total_devices = int (length serial_ports') \<rparr>))"

text \<open>Lines 160 to 169: the lines of one device.\<close>

definition device_lines :: "nat \<times> device_info \<Rightarrow> out_line list" where
  "device_lines p =
     (case p of (i, device) \<Rightarrow>
        [DeviceHeading i,
         NameLine (name device),
         ManufacturerLine (manufacturer device),
         VendorLine (vendor_id device),
         ProductLine (product_id device),
         VersionLine (version device),
         SpeedLine (speed device),
         LocationLine (location_id device)] @
        (if serial_number device \<noteq> JStr ''Unknown''
         then [SerialNumberLine (serial_number device)] else []))"

text \<open>Lines 135 to 175.\<close>

definition print_device_info :: "scan_result \<Rightarrow> out_line list" where
  "print_device_info devices =
     [BlankAndRule, Title, Rule] @
     (if total_devices devices = 0
      then [NoDevicesFound, TipsHeading, TipConnect, TipCable, TipPort]
      else
        [Found (total_devices devices),
         SerialPortsHeading (length (serial_ports devices))] @
        map (\<lambda>(i, port). PortLine i port) (enumerate 1 (serial_ports devices)) @
        (if usb_devices devices \<noteq> []
         then UsbDetailsHeading (length (usb_devices devices)) #
              concat (map device_lines (enumerate 1 (usb_devices devices)))
         else []) @
        [UsageHeading, UsageHint] @
        map UsagePort (filter (str_in ''cu.'') (serial_ports devices)))"

text \<open>Lines 177 to 186: \<^verbatim>\<open>main\<close>, with what it printed.\<close>

definition main :: "(string \<Rightarrow> string list) \<Rightarrow> usb_info \<Rightarrow> out_line list \<times> (exn + unit)" where
  "main glob u =
     (let (printed, r) = detect_arduino_devices glob u
      in case r of
           Inl e \<Rightarrow> ([ProgramName, ProgramPurpose] @ printed, Inl e)
         | Inr devices \<Rightarrow>
             ([ProgramName, ProgramPurpose] @ printed @ print_device_info devices @
              [ClosingRule], Inr ()))"

section \<open>USB device nodes and trees\<close>

text \<open>
  The notions the statements below are about; none of them is code of the program.

  A USB device node is a dict whose \<^verbatim>\<open>vendor_id\<close>, \<^verbatim>\<open>product_id\<close> and \<^verbatim>\<open>_name\<close> are each
  absent or a string: these are the three attributes the traversal lower-cases.
  \<open>text_of\<close> reads such an attribute, the empty string standing for an absent one as in
  \<^verbatim>\<open>item.get(k, '')\<close>.
\<close>

definition text_of :: "dict \<Rightarrow> string \<Rightarrow> string" where
  "text_of d k = (case map_of d k of Some (JStr s) \<Rightarrow> s | _ \<Rightarrow> '''')"

definition str_or_absent :: "dict \<Rightarrow> string \<Rightarrow> bool" where
  "str_or_absent d k = (case map_of d k of None \<Rightarrow> True | Some (JStr s) \<Rightarrow> True | Some _ \<Rightarrow> False)"

definition usb_node :: "dict \<Rightarrow> bool" where
  "usb_node d =
     (str_or_absent d ''vendor_id'' \<and> str_or_absent d ''product_id'' \<and> str_or_absent d ''_name'')"

text \<open>
  The classification predicate at a node: the value of the local \<^verbatim>\<open>is_arduino\<close> in the
  iteration for that node. It does not hold where the iteration raises before line 79.
\<close>

definition candidate :: "dict \<Rightarrow> bool" where
  "candidate d =
     (case normalized d of
        Inl e \<Rightarrow> False
      | Inr (vendor_id', product_id', product_name') \<Rightarrow> is_arduino vendor_id' product_name')"

text \<open>The record the traversal appends for a node.\<close>

definition candidate_device :: "dict \<Rightarrow> device_info" where
  "candidate_device d = make_device_info d (lower (text_of d ''vendor_id''))"

definition own :: "dict \<Rightarrow> device_info list" where
  "own d = (if candidate d then [candidate_device d] else [])"


text \<open>
  The nodes of a forest at any depth, in pre-order: a node, then the nodes below it, then
  its later siblings. This follows the words of the specification, not the code.
\<close>

function nodes :: "json \<Rightarrow> dict list" where
  "nodes items =
     (case items of
        JArr xs \<Rightarrow>
          concat (map (\<lambda>x. case x of
                              JObj d \<Rightarrow>
                                d # (case map_of d ''_items'' of
                                       None \<Rightarrow> []
                                     | Some children \<Rightarrow> nodes children)
                            | _ \<Rightarrow> []) xs)
      | _ \<Rightarrow> [])"
  by pat_completeness auto
termination
proof (relation "measure size", goal_cases)
  case 1
  then show ?case by simp
next
  case (2 items xs x d children)
  then show ?case
    using size_map_of[of d "''_items''" children] py_iter_JObj_member[of items xs d]
    by simp
qed

declare nodes.simps [simp del]

text \<open>
  A USB device tree, as the classifier is given it: a list of USB device nodes, the
  \<^verbatim>\<open>_items\<close> of each, where present, again such a list.
\<close>

function usb_tree :: "json \<Rightarrow> bool" where
  "usb_tree items =
     (case items of
        JArr xs \<Rightarrow>
          list_all (\<lambda>x. case x of
                          JObj d \<Rightarrow>
                            usb_node d \<and>
                            (case map_of d ''_items'' of
                               None \<Rightarrow> True
                             | Some children \<Rightarrow> usb_tree children)
                        | _ \<Rightarrow> False) xs
      | _ \<Rightarrow> False)"
  by pat_completeness auto
termination
proof (relation "measure size", goal_cases)
  case 1
  then show ?case by simp
next
  case (2 items xs x d children)
  then show ?case
    using size_map_of[of d "''_items''" children] py_iter_JObj_member[of items xs d]
    by simp
qed

declare usb_tree.simps [simp del]

text \<open>The records of the candidates of a forest, in pre-order.\<close>

definition found :: "json \<Rightarrow> device_info list" where
  "found items = map candidate_device (filter candidate (nodes items))"

definition below :: "json \<Rightarrow> device_info list" where
  "below x = (case x of
                JObj d \<Rightarrow> own d @ (case map_of d ''_items'' of
                                     None \<Rightarrow> [] | Some c \<Rightarrow> found c)
              | _ \<Rightarrow> [])"

text \<open>
  A top-level bus entry: a dict whose \<^verbatim>\<open>_items\<close>, where present, are a USB device tree;
  and the records of the candidates strictly below it.
\<close>

definition bus_ok :: "json \<Rightarrow> bool" where
  "bus_ok bus =
     (case bus of
        JObj b \<Rightarrow> (case map_of b ''_items'' of None \<Rightarrow> True | Some c \<Rightarrow> usb_tree c)
      | _ \<Rightarrow> False)"

definition below_bus :: "json \<Rightarrow> device_info list" where
  "below_bus bus =
     (case bus of
        JObj b \<Rightarrow> (case map_of b ''_items'' of None \<Rightarrow> [] | Some c \<Rightarrow> found c)
      | _ \<Rightarrow> [])"

text \<open>A filesystem with two call-out device files, one serial and one modem.\<close>

definition glob1 :: "string \<Rightarrow> string list" where
  "glob1 pattern =
     (if pattern = ''/dev/cu.usbserial*'' then [''/dev/cu.usbserial-1'']
      else if pattern = ''/dev/cu.usbmodem*'' then [''/dev/cu.usbmodem1'']
      else [])"

section \<open>Auxiliary facts\<close>

subsection \<open>Strings and the table\<close>

text \<open>
  The order on strings is the lexicographic order on the character codes, as Python
  compares two \<^verbatim>\<open>str\<close>.
\<close>

lemma string_order:
  "(a # s < b # t) = ((of_char a :: nat) < of_char b \<or> a = b \<and> s < t)"
  "([] < b # t) = True"
  "(s < ([] :: string)) = False"
  by (auto simp: less_char_def)

lemma lower_Keyboard: "lower ''Keyboard'' = ''keyboard''" by code_simp

lemma lower_Widget: "lower ''Widget'' = ''widget''" by code_simp

lemma lower_USB20: "lower ''USB2.0-Serial'' = ''usb2.0-serial''" by code_simp

lemma lower_1a86: "lower ''0x1a86'' = ''0x1a86''" by code_simp


lemma lower_05ac: "lower ''0x05ac'' = ''0x05ac''" by code_simp

lemma lower_9999: "lower ''0x9999'' = ''0x9999''" by code_simp

lemma lower_10C4: "lower ''0x10C4'' = ''0x10c4''" by code_simp

lemma lower_2341: "lower ''0x2341'' = ''0x2341''" by code_simp


lemma lower_Arduino_Uno: "lower ''Arduino Uno'' = ''arduino uno''" by code_simp

lemma lower_Nil: "lower '''' = ''''" by (simp add: lower_def)

lemma str_in_iff: "str_in s h = (\<exists>pre post. h = pre @ s @ post)"
  by (simp add: str_in_def sublist_def)

lemma contains_sublist: "(\<exists>pre post. h = pre @ s @ post) = sublist s h"
  by (simp add: sublist_def)

lemma ARDUINO_IDS_lookup:
  "map_of ARDUINO_IDS k =
     (if k = ''0x2341'' then Some ''Arduino''
      else if k = ''0x1a86'' then Some ''CH340/CH341''
      else if k = ''0x0403'' then Some ''FTDI''
      else if k = ''0x10c4'' then Some ''Silicon Labs''
      else if k = ''0x067b'' then Some ''Prolific''
      else None)"
  by (simp add: ARDUINO_IDS_def)

lemma dict_get_cases:
  "dict_get d k dflt = (case map_of d k of None \<Rightarrow> dflt | Some v \<Rightarrow> v)"
  by (simp add: dict_get_def split: option.splits)

subsection \<open>One node\<close>

lemma lower_method_get:
  "str_or_absent d k \<Longrightarrow> lower_method (dict_get d k (JStr '''')) = Inr (lower (text_of d k))"
  by (auto simp: str_or_absent_def dict_get_def text_of_def lower_def split: option.splits json.splits)

lemma lower_method_get_Inr:
  "lower_method (dict_get d k (JStr '''')) = Inr s \<Longrightarrow> str_or_absent d k \<and> s = lower (text_of d k)"
  by (auto simp: str_or_absent_def dict_get_def text_of_def lower_def split: option.splits json.splits)

lemma normalized_usb_node:
  "usb_node d \<Longrightarrow>
   normalized d =
     Inr (lower (text_of d ''vendor_id''), lower (text_of d ''product_id''), lower (text_of d ''_name''))"
  by (simp add: usb_node_def normalized_def lower_method_get)

lemma normalized_Inr:
  "normalized d = Inr (v, p, n) \<Longrightarrow>
   usb_node d \<and> v = lower (text_of d ''vendor_id'') \<and> p = lower (text_of d ''product_id'') \<and>
   n = lower (text_of d ''_name'')"
  unfolding normalized_def usb_node_def
  by (auto split: sum.splits dest!: lower_method_get_Inr)

lemma lower_method_Inl: "lower_method x = Inl e \<Longrightarrow> e = AttributeError"
  by (cases x) simp_all

lemma normalized_Inl: "normalized d = Inl e \<Longrightarrow> e = AttributeError"
  unfolding normalized_def
  by (auto split: sum.splits dest: lower_method_Inl)

lemma normalized_not_usb_node:
  assumes "\<not> usb_node d"
  shows "normalized d = Inl AttributeError"
proof (cases "normalized d")
  case (Inl e)
  then show ?thesis using normalized_Inl by simp
next
  case (Inr t)
  then obtain v p n where "normalized d = Inr (v, p, n)"
    by (cases t) auto
  then have "usb_node d" by (simp add: normalized_Inr)
  with assms show ?thesis by simp
qed

lemma candidate_usb_node:
  "usb_node d \<Longrightarrow>
   candidate d = is_arduino (lower (text_of d ''vendor_id'')) (lower (text_of d ''_name''))"
  by (simp add: candidate_def normalized_usb_node)

lemma manufacturer_Unknown:
  "(manufacturer (make_device_info d v) = ''Unknown'') = (map_of ARDUINO_IDS v = None)"
  by (simp add: make_device_info_def ARDUINO_IDS_def)

lemma absent_vendor_not_in_table:
  "map_of d ''vendor_id'' = None \<Longrightarrow> map_of ARDUINO_IDS (lower (text_of d ''vendor_id'')) = None"
  by (simp add: text_of_def lower_def ARDUINO_IDS_def)

subsection \<open>The traversal\<close>

lemma for_loop_append:
  "(\<And>x acc. x \<in> set xs \<Longrightarrow> body x acc = Inr (acc @ out x)) \<Longrightarrow>
   for_loop body xs acc = Inr (acc @ concat (map out xs))"
proof (induction xs arbitrary: acc)
  case Nil
  show ?case by simp
next
  case (Cons x xs)
  have "body x acc = Inr (acc @ out x)"
    by (rule Cons.prems) simp
  moreover have "for_loop body xs (acc @ out x) = Inr ((acc @ out x) @ concat (map out xs))"
    by (rule Cons.IH) (simp add: Cons.prems)
  ultimately show ?case by simp
qed

lemma search_usb_tree_visit:
  "search_usb_tree items acc =
     (case py_iter items of Inl e \<Rightarrow> Inl e | Inr xs \<Rightarrow> for_loop visit xs acc)"
proof -
  have "visit = (\<lambda>item devices.
               case item of
                 JObj d \<Rightarrow>
                   (case normalized d of
                      Inl e \<Rightarrow> Inl e
                    | Inr (vendor_id', product_id', product_name') \<Rightarrow>
                        let devices' =
                              (if is_arduino vendor_id' product_name'
                               then devices @ [make_device_info d vendor_id']
                               else devices)
                        in (case map_of d ''_items'' of
                              None \<Rightarrow> Inr devices'
                            | Some children \<Rightarrow> search_usb_tree children devices'))
               | _ \<Rightarrow> Inl AttributeError)"
    by (rule ext, rule ext) (rule visit_def)
  then show ?thesis
    by (simp only: search_usb_tree.simps[of items acc])
qed

lemma search_usb_tree_JArr: "search_usb_tree (JArr xs) acc = for_loop visit xs acc"
  by (simp add: search_usb_tree_visit)


lemma visit_usb_node:
  "usb_node d \<Longrightarrow>
   visit (JObj d) acc =
     (case map_of d ''_items'' of
        None \<Rightarrow> Inr (acc @ own d)
      | Some children \<Rightarrow> search_usb_tree children (acc @ own d))"
  by (simp add: visit_def normalized_usb_node own_def candidate_usb_node candidate_device_def
           split: option.splits)

lemma visit_candidate:
  assumes "normalized d = Inr (v, p, n)" and "is_arduino v n"
  shows "visit (JObj d) acc =
           (case map_of d ''_items'' of
              None \<Rightarrow> Inr (acc @ [make_device_info d v])
            | Some children \<Rightarrow> search_usb_tree children (acc @ [make_device_info d v]))"
  using assms by (simp add: visit_def Let_def)

lemma visit_not_usb_node: "\<not> usb_node d \<Longrightarrow> visit (JObj d) acc = Inl AttributeError"
  by (simp add: visit_def normalized_not_usb_node)



lemma found_JArr:
  "found (JArr xs) =
     concat (map (\<lambda>x. case x of
                         JObj d \<Rightarrow> own d @ (case map_of d ''_items'' of
                                              None \<Rightarrow> [] | Some c \<Rightarrow> found c)
                       | _ \<Rightarrow> []) xs)"
  unfolding found_def nodes.simps[of "JArr xs"]
  by (induction xs) (auto simp: own_def split: json.splits option.splits)

lemma found_JArr_below: "found (JArr xs) = concat (map below xs)"
  using found_JArr[of xs] below_def[abs_def] by simp



lemma usb_tree_elem:
  "(case x of
      JObj d \<Rightarrow> usb_node d \<and> (case map_of d ''_items'' of None \<Rightarrow> True | Some c \<Rightarrow> usb_tree c)
    | _ \<Rightarrow> False) =
   (\<exists>d. x = JObj d \<and> usb_node d \<and> (\<forall>c. map_of d ''_items'' = Some c \<longrightarrow> usb_tree c))"
  by (cases x) (simp_all split: option.splits)

lemma usb_tree_JArr:
  "usb_tree (JArr xs) =
     (\<forall>x \<in> set xs. \<exists>d. x = JObj d \<and> usb_node d \<and>
        (\<forall>c. map_of d ''_items'' = Some c \<longrightarrow> usb_tree c))"
  unfolding usb_tree.simps[of "JArr xs"]
  by (simp add: list_all_iff usb_tree_elem)

lemma usb_tree_is_JArr: "usb_tree items \<Longrightarrow> \<exists>xs. items = JArr xs"
  unfolding usb_tree.simps[of items] by (cases items) auto



text \<open>
  On a USB device tree the traversal returns, after what was collected before, the
  records of the candidates among all nodes, in pre-order.
\<close>

lemma search_usb_tree_found:
  "usb_tree items \<Longrightarrow> search_usb_tree items acc = Inr (acc @ found items)"
proof (induction items arbitrary: acc rule: nodes.induct)
  case (1 items)
  from "1.prems" obtain xs where items: "items = JArr xs"
    using usb_tree_is_JArr by blast
  have step: "visit x a = Inr (a @ below x)" if x: "x \<in> set xs" for x a
  proof -
    from "1.prems" x obtain d where d: "x = JObj d" "usb_node d"
      and kids: "\<And>c. map_of d ''_items'' = Some c \<Longrightarrow> usb_tree c"
      unfolding items usb_tree_JArr by blast
    show ?thesis
    proof (cases "map_of d ''_items''")
      case None
      then show ?thesis by (simp add: d visit_usb_node below_def)
    next
      case (Some c)
      have "search_usb_tree c (a @ own d) = Inr ((a @ own d) @ found c)"
        using items x d(1) Some kids[OF Some] by (rule "1.IH")
      with Some show ?thesis by (simp add: d visit_usb_node below_def)
    qed
  qed
  have "search_usb_tree items acc = for_loop visit xs acc"
    by (simp add: items search_usb_tree_JArr)
  also have "\<dots> = Inr (acc @ concat (map below xs))"
    using step by (rule for_loop_append[of xs visit below acc])
  finally show ?case by (simp add: items found_JArr_below)
qed

lemma search_bus_ok:
  "bus_ok bus \<Longrightarrow> search_bus bus acc = Inr (acc @ below_bus bus)"
  by (cases bus)
     (auto simp: bus_ok_def below_bus_def search_bus_def dict_has_def search_usb_tree_found
           split: option.splits)

subsection \<open>The collaborator, the path scanner and the report\<close>

text \<open>
  A non-zero exit and unparsable output are caught at line 112: the message is printed
  and the empty list returned.
\<close>

lemma recovered_failures:
  "get_usb_device_info NonZeroExit = ([UsbInfoError CalledProcessError], Inr []) \<and>
   get_usb_device_info Unparsable = ([UsbInfoError JSONDecodeError], Inr [])"
  by (simp add: get_usb_device_info_def try_body_def)

text \<open>The scan then continues with the path scanner's results and no candidate.\<close>

lemma recovered_failures_scan:
  "detect_arduino_devices glob NonZeroExit =
     ([Scanning, UsbInfoError CalledProcessError],
      Inr \<lparr> serial_ports = get_serial_ports glob, usb_devices = [],
            total_devices = int (length (get_serial_ports glob)) \<rparr>) \<and>
   detect_arduino_devices glob Unparsable =
     ([Scanning, UsbInfoError JSONDecodeError],
      Inr \<lparr> serial_ports = get_serial_ports glob, usb_devices = [],
            total_devices = int (length (get_serial_ports glob)) \<rparr>)"
  by (simp add: detect_arduino_devices_def get_usb_device_info_def try_body_def Let_def)

lemma empty_topology: "get_usb_device_info (Parsed (JObj [])) = ([], Inr [])"
  by (simp add: get_usb_device_info_def try_body_def dict_get_def)

lemma fold_glob:
  "fold (\<lambda>pattern usb_devices. usb_devices @ glob pattern) ps acc = acc @ concat (map glob ps)"
  by (induction ps arbitrary: acc) simp_all

lemma get_serial_ports_eq:
  "get_serial_ports glob = sort (remdups (concat (map glob patterns)))"
  by (simp add: get_serial_ports_def fold_glob)

lemma no_matches:
  assumes "\<forall>pattern \<in> set patterns. glob pattern = []"
  shows "get_serial_ports glob = []"
proof -
  have "set (get_serial_ports glob) = (\<Union>pattern \<in> set patterns. set (glob pattern))"
    by (simp add: get_serial_ports_eq)
  with assms have "set (get_serial_ports glob) = {}"
    by simp
  then show ?thesis
    by simp
qed

lemma device_lines_no_notice: "NoDevicesFound \<notin> set (device_lines p)"
  by (cases p) (simp add: device_lines_def)

lemma no_devices_iff:
  "(NoDevicesFound \<in> set (print_device_info devices)) = (total_devices devices = 0)"
  by (auto simp: print_device_info_def device_lines_no_notice)

lemma details_rendered:
  assumes "total_devices devices \<noteq> 0" and "usb_devices devices \<noteq> []"
  shows "UsbDetailsHeading (length (usb_devices devices)) \<in> set (print_device_info devices)"
  using assms by (simp add: print_device_info_def)

lemma detect_result:
  assumes "snd (detect_arduino_devices glob u) = Inr r"
  shows "serial_ports r = get_serial_ports glob"
    and "total_devices r = int (length (serial_ports r))"
  using assms
  by (auto simp: detect_arduino_devices_def Let_def split: prod.splits sum.splits)

lemma modem_before_serial: "''/dev/cu.usbmodem1'' < ''/dev/cu.usbserial-1''"
  by (simp add: less_char_def)

section \<open>The claims\<close>

text \<open>
  C1. For every failure of the external USB-info collaborator (the command being
  unreachable, a non-zero exit, or unparsable output) the classifier returns an empty
  candidate sequence instead of propagating the failure, the condition is printed, and
  the scan continues with the path scanner's results only.

  The code does this for a non-zero exit and for unparsable output
  (\<open>recovered_failures\<close>). When the command cannot be started, \<^verbatim>\<open>subprocess.run\<close> raises
  \<^verbatim>\<open>FileNotFoundError\<close>, which line 112 does not name: nothing is printed by
  \<^verbatim>\<open>get_usb_device_info\<close>, and the exception leaves it, \<^verbatim>\<open>detect_arduino_devices\<close> and
  \<^verbatim>\<open>main\<close>, whatever the filesystem holds. The theorem evaluates the code there.
\<close>

theorem unreachable_command_propagates:
  "get_usb_device_info Unreachable = ([], Inl FileNotFoundError) \<and>
   detect_arduino_devices glob Unreachable = ([Scanning], Inl FileNotFoundError) \<and>
   main glob Unreachable = ([ProgramName, ProgramPurpose, Scanning], Inl FileNotFoundError)"
  by (simp add: get_usb_device_info_def try_body_def detect_arduino_devices_def main_def)

text \<open>
  C2. As stated, the known chipset table maps the five vendor IDs 2341, 1a86, 0403, 10c4
  and 067b to "Arduino (official)", "CH340/CH341", "FTDI", "Silicon Labs CP210x" and
  "Prolific PL2303", and manufacturer resolution returns these labels.

  The table of the code has the keys with their \<^verbatim>\<open>0x\<close> prefix, and three of its labels are
  shorter: "Arduino", "Silicon Labs" and "Prolific". Amended: the table maps exactly the
  five keys 0x2341, 0x1a86, 0x0403, 0x10c4 and 0x067b to "Arduino", "CH340/CH341", "FTDI",
  "Silicon Labs" and "Prolific", and for every USB device node whose lower-cased vendor
  ID is one of these keys the traversal appends a record whose manufacturer is that
  label.
\<close>

theorem chipset_table:
  "map_of ARDUINO_IDS k =
     (if k = ''0x2341'' then Some ''Arduino''
      else if k = ''0x1a86'' then Some ''CH340/CH341''
      else if k = ''0x0403'' then Some ''FTDI''
      else if k = ''0x10c4'' then Some ''Silicon Labs''
      else if k = ''0x067b'' then Some ''Prolific''
      else None) \<and>
   (\<forall>d label. usb_node d \<and> map_of ARDUINO_IDS (lower (text_of d ''vendor_id'')) = Some label \<longrightarrow>
      visit (JObj d) acc =
        (case map_of d ''_items'' of
           None \<Rightarrow> Inr (acc @ [candidate_device d])
         | Some children \<Rightarrow> search_usb_tree children (acc @ [candidate_device d])) \<and>
      manufacturer (candidate_device d) = label)"
proof (intro conjI allI impI)
  show "map_of ARDUINO_IDS k =
     (if k = ''0x2341'' then Some ''Arduino''
      else if k = ''0x1a86'' then Some ''CH340/CH341''
      else if k = ''0x0403'' then Some ''FTDI''
      else if k = ''0x10c4'' then Some ''Silicon Labs''
      else if k = ''0x067b'' then Some ''Prolific''
      else None)"
    by (rule ARDUINO_IDS_lookup)
next
  fix d label
  assume a: "usb_node d \<and> map_of ARDUINO_IDS (lower (text_of d ''vendor_id'')) = Some label"
  then have "candidate d"
    by (simp add: candidate_usb_node is_arduino_def)
  then have "own d = [candidate_device d]"
    by (simp add: own_def)
  with a show "visit (JObj d) acc =
        (case map_of d ''_items'' of
           None \<Rightarrow> Inr (acc @ [candidate_device d])
         | Some children \<Rightarrow> search_usb_tree children (acc @ [candidate_device d]))"
    by (simp add: visit_usb_node split: option.splits)
next
  fix d label
  assume a: "usb_node d \<and> map_of ARDUINO_IDS (lower (text_of d ''vendor_id'')) = Some label"
  then show "manufacturer (candidate_device d) = label"
    by (simp add: candidate_device_def make_device_info_def)
qed

text \<open>
  A node that carries the vendor ID in capitals, 0x10C4, is resolved to "Silicon Labs".
\<close>

theorem chipset_table_witness:
  "search_usb_tree (JArr [JObj [(''vendor_id'', JStr ''0x10C4'')]]) [] =
     Inr [candidate_device [(''vendor_id'', JStr ''0x10C4'')]] \<and>
   manufacturer (candidate_device [(''vendor_id'', JStr ''0x10C4'')]) = ''Silicon Labs''"
  using chipset_table[of "''0x10c4''" "[]"]
  by (simp add: search_usb_tree_JArr usb_node_def str_or_absent_def text_of_def lower_10C4
        split: sum.splits)

text \<open>
  The claim as stated fails at the vendor ID of the official boards: the key 2341 is not
  in the table, and the label of 0x2341 is "Arduino".
\<close>

theorem chipset_labels_counterexample:
  "map_of ARDUINO_IDS ''2341'' = None \<and>
   map_of ARDUINO_IDS ''0x2341'' = Some ''Arduino'' \<and>
   manufacturer (make_device_info [(''vendor_id'', JStr ''0x2341'')] ''0x2341'') \<noteq> ''Arduino (official)''"
  by (simp add: ARDUINO_IDS_def make_device_info_def)



text \<open>
  C4. For every USB device node, the classification predicate holds if and only if the
  node's vendor ID, lower-cased, has an entry in the known chipset table, or the node's
  display name, lower-cased, contains one of the substrings "arduino", "serial", "ch340",
  "ftdi" or "usb2.0-serial".
\<close>

theorem classification_predicate:
  "usb_node d \<Longrightarrow>
   candidate d =
     (lower (text_of d ''vendor_id'') \<in> fst ` set ARDUINO_IDS \<or>
      (\<exists>s \<in> set [''arduino'', ''serial'', ''ch340'', ''ftdi'', ''usb2.0-serial''].
         \<exists>pre post. lower (text_of d ''_name'') = pre @ s @ post))"
proof -
  assume "usb_node d"
  then have "candidate d =
     is_arduino (lower (text_of d ''vendor_id'')) (lower (text_of d ''_name''))"
    by (rule candidate_usb_node)
  moreover have "(map_of ARDUINO_IDS k \<noteq> None) = (k \<in> fst ` set ARDUINO_IDS)" for k
    by (simp add: map_of_eq_None_iff)
  ultimately show ?thesis
    by (simp add: is_arduino_def str_in_iff)
qed

text \<open>
  The three nodes the claim names: vendor ID 0x1a86 with a name that matches nothing, the
  name "USB2.0-Serial" with an unrecognised vendor ID, and vendor ID 0x05ac named
  "Keyboard".
\<close>

theorem classification_predicate_witness:
  "candidate [(''vendor_id'', JStr ''0x1a86''), (''_name'', JStr ''Widget'')] \<and>
   candidate [(''_name'', JStr ''USB2.0-Serial''), (''vendor_id'', JStr ''0x9999'')] \<and>
   \<not> candidate [(''vendor_id'', JStr ''0x05ac''), (''_name'', JStr ''Keyboard'')]"
  using classification_predicate[of "[(''vendor_id'', JStr ''0x1a86''), (''_name'', JStr ''Widget'')]"]
        classification_predicate[of "[(''_name'', JStr ''USB2.0-Serial''), (''vendor_id'', JStr ''0x9999'')]"]
        classification_predicate[of "[(''vendor_id'', JStr ''0x05ac''), (''_name'', JStr ''Keyboard'')]"]
  by (simp add: usb_node_def str_or_absent_def text_of_def lower_Keyboard lower_Widget lower_USB20
        lower_1a86 lower_05ac lower_9999 ARDUINO_IDS_def contains_sublist sublist_code)



text \<open>
  C6. For every filesystem state the path scanner returns the matches of its six fixed
  patterns with duplicates removed, sorted ascending as strings: the result is sorted, has
  no duplicates, and its elements are exactly the matches of the patterns, so a pattern
  that matches nothing contributes nothing; and when no pattern matches anything the
  result is empty. The function has no error result at all.
\<close>

theorem path_scanner:
  "sorted (get_serial_ports glob) \<and>
   distinct (get_serial_ports glob) \<and>
   set (get_serial_ports glob) = (\<Union>pattern \<in> set patterns. set (glob pattern)) \<and>
   ((\<forall>pattern \<in> set patterns. glob pattern = []) \<longrightarrow> get_serial_ports glob = [])"
proof (intro conjI impI)
  show "sorted (get_serial_ports glob)"
    by (simp add: get_serial_ports_eq)
  show "distinct (get_serial_ports glob)"
    by (simp add: get_serial_ports_eq)
  show s: "set (get_serial_ports glob) = (\<Union>pattern \<in> set patterns. set (glob pattern))"
    by (simp add: get_serial_ports_eq)
  assume "\<forall>pattern \<in> set patterns. glob pattern = []"
  then show "get_serial_ports glob = []"
    by (rule no_matches)
qed

text \<open>
  An empty filesystem, and one where two patterns match one path each: the serial pattern
  comes first in the list, and its match sorts after the modem's.
\<close>

theorem path_scanner_witness:
  "get_serial_ports (\<lambda>pattern. []) = [] \<and>
   get_serial_ports glob1 = [''/dev/cu.usbmodem1'', ''/dev/cu.usbserial-1'']"
proof
  show "get_serial_ports (\<lambda>pattern. []) = []"
    using path_scanner[of "\<lambda>pattern. []"] by simp
next
  have "sorted (get_serial_ports glob1)" "distinct (get_serial_ports glob1)"
    and "set (get_serial_ports glob1) = (\<Union>pattern \<in> set patterns. set (glob1 pattern))"
    using path_scanner[of glob1] by simp_all
  moreover have "(\<Union>pattern \<in> set patterns. set (glob1 pattern)) =
      set [''/dev/cu.usbmodem1'', ''/dev/cu.usbserial-1'']"
    by (simp add: patterns_def glob1_def insert_commute)
  moreover have "sorted [''/dev/cu.usbmodem1'', ''/dev/cu.usbserial-1'']"
    and "distinct [''/dev/cu.usbmodem1'', ''/dev/cu.usbserial-1'']"
    using modem_before_serial by simp_all
  ultimately show "get_serial_ports glob1 = [''/dev/cu.usbmodem1'', ''/dev/cu.usbserial-1'']"
    by (intro sorted_distinct_set_unique) simp_all
qed

text \<open>
  The record of a candidate. A node whose vendor ID, product ID and display name are each
  absent or a string is classified without error, and the iteration for any other node
  raises \<^verbatim>\<open>AttributeError\<close>. For every node on which the predicate evaluates to true, the
  iteration appends a record that has "Unknown" for each absent attribute and the node's
  own value, of whatever JSON type, for each present one, and whose manufacturer is
  "Unknown" exactly when the vendor ID is absent or its lower-cased form is not in the
  table.
\<close>

lemma candidate_device_defaults:
  "(usb_node d \<longrightarrow> (\<exists>v p n. normalized d = Inr (v, p, n))) \<and>
   (\<not> usb_node d \<longrightarrow> visit (JObj d) acc = Inl AttributeError) \<and>
   (\<forall>v p n. normalized d = Inr (v, p, n) \<and> is_arduino v n \<longrightarrow>
      visit (JObj d) acc =
        (case map_of d ''_items'' of
           None \<Rightarrow> Inr (acc @ [make_device_info d v])
         | Some children \<Rightarrow> search_usb_tree children (acc @ [make_device_info d v])) \<and>
      name (make_device_info d v) =
        (case map_of d ''_name'' of None \<Rightarrow> JStr ''Unknown'' | Some x \<Rightarrow> x) \<and>
      vendor_id (make_device_info d v) =
        (case map_of d ''vendor_id'' of None \<Rightarrow> JStr ''Unknown'' | Some x \<Rightarrow> x) \<and>
      product_id (make_device_info d v) =
        (case map_of d ''product_id'' of None \<Rightarrow> JStr ''Unknown'' | Some x \<Rightarrow> x) \<and>
      version (make_device_info d v) =
        (case map_of d ''bcd_device'' of None \<Rightarrow> JStr ''Unknown'' | Some x \<Rightarrow> x) \<and>
      speed (make_device_info d v) =
        (case map_of d ''speed'' of None \<Rightarrow> JStr ''Unknown'' | Some x \<Rightarrow> x) \<and>
      location_id (make_device_info d v) =
        (case map_of d ''location_id'' of None \<Rightarrow> JStr ''Unknown'' | Some x \<Rightarrow> x) \<and>
      serial_number (make_device_info d v) =
        (case map_of d ''serial_num'' of None \<Rightarrow> JStr ''Unknown'' | Some x \<Rightarrow> x) \<and>
      v = lower (text_of d ''vendor_id'') \<and>
      ((manufacturer (make_device_info d v) = ''Unknown'') =
         (map_of d ''vendor_id'' = None \<or> map_of ARDUINO_IDS v = None)))"
proof (intro conjI allI impI)
  assume "usb_node d"
  then show "\<exists>v p n. normalized d = Inr (v, p, n)"
    by (simp add: normalized_usb_node)
next
  assume "\<not> usb_node d"
  then show "visit (JObj d) acc = Inl AttributeError"
    by (rule visit_not_usb_node)
next
  fix v p n
  assume a: "normalized d = Inr (v, p, n) \<and> is_arduino v n"
  then show "visit (JObj d) acc =
        (case map_of d ''_items'' of
           None \<Rightarrow> Inr (acc @ [make_device_info d v])
         | Some children \<Rightarrow> search_usb_tree children (acc @ [make_device_info d v]))"
    by (simp add: visit_candidate)
  from a show "v = lower (text_of d ''vendor_id'')"
    by (simp add: normalized_Inr)
  then show "(manufacturer (make_device_info d v) = ''Unknown'') =
         (map_of d ''vendor_id'' = None \<or> map_of ARDUINO_IDS v = None)"
    using absent_vendor_not_in_table[of d] by (auto simp: manufacturer_Unknown)
qed (simp_all add: make_device_info_def Unknown_def dict_get_cases)

text \<open>
  A node with a name and a numeric speed and nothing else: five attributes default, the
  number is copied. A node whose name is \<^verbatim>\<open>null\<close> ends the search in the exception.
\<close>

lemma candidate_device_defaults_example:
  "search_usb_tree
     (JArr [JObj [(''_name'', JStr ''USB2.0-Serial''), (''speed'', JNum 12)]]) [] =
   Inr [\<lparr> name = JStr ''USB2.0-Serial'', vendor_id = JStr ''Unknown'',
          product_id = JStr ''Unknown'', version = JStr ''Unknown'', speed = JNum 12,
          location_id = JStr ''Unknown'', manufacturer = ''Unknown'',
          serial_number = JStr ''Unknown'' \<rparr>] \<and>
   search_usb_tree (JArr [JObj [(''_name'', JNull)]]) [] = Inl AttributeError"
proof -
  have "\<not> usb_node [(''_name'', JNull)]"
    by (simp add: usb_node_def str_or_absent_def)
  with candidate_device_defaults[of "[(''_name'', JNull)]" "[]"]
  have "visit (JObj [(''_name'', JNull)]) [] = Inl AttributeError"
    by blast
  then have w: "search_usb_tree (JArr [JObj [(''_name'', JNull)]]) [] = Inl AttributeError"
    by (simp add: search_usb_tree_JArr)
  let ?d = "[(''_name'', JStr ''USB2.0-Serial''), (''speed'', JNum 12)]"
  let ?r = "make_device_info ?d []"
  have n: "normalized ?d = Inr ([], [], ''usb2.0-serial'')"
    by (simp add: normalized_def dict_get_def lower_USB20 lower_Nil)
  have a: "is_arduino [] ''usb2.0-serial''"
    by (simp add: is_arduino_def str_in_def sublist_code)
  from candidate_device_defaults[of ?d "[]"] n a
  have v: "visit (JObj ?d) [] = Inr [?r]"
    and f: "name ?r = JStr ''USB2.0-Serial''" "vendor_id ?r = JStr ''Unknown''"
      "product_id ?r = JStr ''Unknown''" "version ?r = JStr ''Unknown''"
      "speed ?r = JNum 12" "location_id ?r = JStr ''Unknown''"
      "serial_number ?r = JStr ''Unknown''" "manufacturer ?r = ''Unknown''"
    by simp_all
  have "?r = \<lparr> name = JStr ''USB2.0-Serial'', vendor_id = JStr ''Unknown'',
          product_id = JStr ''Unknown'', version = JStr ''Unknown'', speed = JNum 12,
          location_id = JStr ''Unknown'', manufacturer = ''Unknown'',
          serial_number = JStr ''Unknown'' \<rparr>"
    using f by (cases ?r) simp
  with v w show ?thesis
    by (simp add: search_usb_tree_JArr)
qed

text \<open>
  C7. For every node satisfying the classification predicate the record has "Unknown" for
  each absent attribute, its manufacturer is "Unknown" exactly when the vendor ID is
  absent or its lower-cased form is not in the table, and a missing or malformed optional
  attribute never causes an error.

  The record is as the claim says (\<open>candidate_device_defaults\<close>), and a version, speed,
  location or serial number of any JSON type is copied without error. The code breaks the
  last part: a vendor ID, product ID or display name that is present and not a string
  makes line 74, 75 or 76 raise \<^verbatim>\<open>AttributeError\<close>, which line 112 does not name. The
  theorem evaluates the code at a node of an official board, vendor ID 0x2341, whose
  product ID is the number 5: line 75 lower-cases the product ID into a local that nothing
  reads, the exception leaves \<^verbatim>\<open>get_usb_device_info\<close> without a message, and
  \<^verbatim>\<open>detect_arduino_devices\<close> and \<^verbatim>\<open>main\<close> end in it, whatever the filesystem holds. With
  the product ID a string the same node is reported.
\<close>

theorem malformed_attribute_aborts:
  "map_of ARDUINO_IDS (lower ''0x2341'') = Some ''Arduino'' \<and>
   get_usb_device_info
     (Parsed (JObj [(''SPUSBDataType'',
        JArr [JObj [(''_items'',
          JArr [JObj [(''vendor_id'', JStr ''0x2341''), (''product_id'', JNum 5)]])]])])) =
     ([], Inl AttributeError) \<and>
   detect_arduino_devices glob
     (Parsed (JObj [(''SPUSBDataType'',
        JArr [JObj [(''_items'',
          JArr [JObj [(''vendor_id'', JStr ''0x2341''), (''product_id'', JNum 5)]])]])])) =
     ([Scanning], Inl AttributeError) \<and>
   main glob
     (Parsed (JObj [(''SPUSBDataType'',
        JArr [JObj [(''_items'',
          JArr [JObj [(''vendor_id'', JStr ''0x2341''), (''product_id'', JNum 5)]])]])])) =
     ([ProgramName, ProgramPurpose, Scanning], Inl AttributeError) \<and>
   get_usb_device_info
     (Parsed (JObj [(''SPUSBDataType'',
        JArr [JObj [(''_items'',
          JArr [JObj [(''vendor_id'', JStr ''0x2341''), (''product_id'', JStr ''5'')]])]])])) =
     ([], Inr [make_device_info
                 [(''vendor_id'', JStr ''0x2341''), (''product_id'', JStr ''5'')] ''0x2341''])"
proof -
  let ?u = "Parsed (JObj [(''SPUSBDataType'',
        JArr [JObj [(''_items'',
          JArr [JObj [(''vendor_id'', JStr ''0x2341''), (''product_id'', JNum 5)]])]])])"
  have g: "get_usb_device_info ?u = ([], Inl AttributeError)"
    by (simp add: get_usb_device_info_def try_body_def dict_get_def
          search_bus_def dict_has_def search_usb_tree_JArr visit_def normalized_def lower_2341)
  have d: "detect_arduino_devices glob ?u = ([Scanning], Inl AttributeError)"
    by (simp add: detect_arduino_devices_def g)
  have m: "main glob ?u = ([ProgramName, ProgramPurpose, Scanning], Inl AttributeError)"
    by (simp add: main_def d)
  have l5: "lower ''5'' = ''5''"
    by code_simp
  have s: "get_usb_device_info
     (Parsed (JObj [(''SPUSBDataType'',
        JArr [JObj [(''_items'',
          JArr [JObj [(''vendor_id'', JStr ''0x2341''), (''product_id'', JStr ''5'')]])]])])) =
     ([], Inr [make_device_info
                 [(''vendor_id'', JStr ''0x2341''), (''product_id'', JStr ''5'')] ''0x2341''])"
    by (simp add: get_usb_device_info_def try_body_def dict_get_def search_bus_def dict_has_def
          search_usb_tree_JArr visit_def normalized_def lower_2341 lower_Nil l5 is_arduino_def
          ARDUINO_IDS_def)
  have t: "map_of ARDUINO_IDS (lower ''0x2341'') = Some ''Arduino''"
    by (simp add: lower_2341 ARDUINO_IDS_def)
  from t g d m s show ?thesis
    by simp
qed

text \<open>
  C8. For every scan result whose total device-file count is zero, the report is the
  heading, the no-devices-found notice and the three tips, and none of the list sections;
  this is what the program prints when no pattern matches and the classifier returns no
  candidate.
\<close>

theorem zero_devices_report:
  "(total_devices devices = 0 \<longrightarrow>
      print_device_info devices =
        [BlankAndRule, Title, Rule, NoDevicesFound, TipsHeading, TipConnect, TipCable, TipPort]) \<and>
   ((\<forall>pattern \<in> set patterns. glob pattern = []) \<and> get_usb_device_info u = (printed, Inr []) \<longrightarrow>
      main glob u =
        ([ProgramName, ProgramPurpose, Scanning] @ printed @
         [BlankAndRule, Title, Rule, NoDevicesFound, TipsHeading, TipConnect, TipCable, TipPort,
          ClosingRule], Inr ()))"
proof (intro conjI impI)
  assume "total_devices devices = 0"
  then show "print_device_info devices =
        [BlankAndRule, Title, Rule, NoDevicesFound, TipsHeading, TipConnect, TipCable, TipPort]"
    by (simp add: print_device_info_def)
next
  assume a: "(\<forall>pattern \<in> set patterns. glob pattern = []) \<and>
    get_usb_device_info u = (printed, Inr [])"
  then have "get_serial_ports glob = []"
    by (simp add: no_matches)
  with a show "main glob u =
        ([ProgramName, ProgramPurpose, Scanning] @ printed @
         [BlankAndRule, Title, Rule, NoDevicesFound, TipsHeading, TipConnect, TipCable, TipPort,
          ClosingRule], Inr ())"
    by (simp add: main_def detect_arduino_devices_def print_device_info_def)
qed

text \<open>
  No device files and a topology with no buses.
\<close>

theorem zero_devices_report_witness:
  "print_device_info \<lparr> serial_ports = [], usb_devices = [], total_devices = 0 \<rparr> =
     [BlankAndRule, Title, Rule, NoDevicesFound, TipsHeading, TipConnect, TipCable, TipPort] \<and>
   main (\<lambda>pattern. []) (Parsed (JObj [])) =
     ([ProgramName, ProgramPurpose, Scanning, BlankAndRule, Title, Rule, NoDevicesFound,
       TipsHeading, TipConnect, TipCable, TipPort, ClosingRule], Inr ())"
  using zero_devices_report[of "\<lparr> serial_ports = [], usb_devices = [], total_devices = 0 \<rparr>"
          "\<lambda>pattern. []" "Parsed (JObj [])" "[]"]
        empty_topology
  by simp

text \<open>
  C9. The zero-device branch of the report is decided by the device-file path count
  alone. The count \<^verbatim>\<open>total_devices\<close> of a scan is the length of its path list. The report
  has the no-devices-found notice exactly when the count is zero, so the report of a scan
  has it exactly when the path list is empty; with a count other than zero and candidates
  present, the USB device details are printed. Whenever the path list is empty the report
  is the notice and the tips and no USB device detail, whatever candidates the classifier
  returned.
\<close>

theorem zero_branch_by_path_count:
  "(\<forall>r. snd (detect_arduino_devices glob u) = Inr r \<longrightarrow>
      serial_ports r = get_serial_ports glob \<and>
      total_devices r = int (length (serial_ports r))) \<and>
   (get_serial_ports glob = [] \<and> get_usb_device_info u = (printed, Inr ds) \<longrightarrow>
      detect_arduino_devices glob u =
        (Scanning # printed,
         Inr \<lparr> serial_ports = [], usb_devices = ds, total_devices = 0 \<rparr>) \<and>
      print_device_info \<lparr> serial_ports = [], usb_devices = ds, total_devices = 0 \<rparr> =
        [BlankAndRule, Title, Rule, NoDevicesFound, TipsHeading, TipConnect, TipCable, TipPort] \<and>
      main glob u =
        ([ProgramName, ProgramPurpose, Scanning] @ printed @
         [BlankAndRule, Title, Rule, NoDevicesFound, TipsHeading, TipConnect, TipCable, TipPort,
          ClosingRule], Inr ())) \<and>
   ((NoDevicesFound \<in> set (print_device_info devices)) = (total_devices devices = 0)) \<and>
   (\<forall>r. snd (detect_arduino_devices glob u) = Inr r \<longrightarrow>
      (NoDevicesFound \<in> set (print_device_info r)) = (get_serial_ports glob = [])) \<and>
   (total_devices devices \<noteq> 0 \<and> usb_devices devices \<noteq> [] \<longrightarrow>
      UsbDetailsHeading (length (usb_devices devices)) \<in> set (print_device_info devices))"
proof (intro conjI allI impI)
  fix r
  assume a: "snd (detect_arduino_devices glob u) = Inr r"
  then show "serial_ports r = get_serial_ports glob"
    by (rule detect_result)
  from a show "total_devices r = int (length (serial_ports r))"
    by (rule detect_result)
  from a have "total_devices r = int (length (get_serial_ports glob))"
    by (simp add: detect_result)
  then show "(NoDevicesFound \<in> set (print_device_info r)) = (get_serial_ports glob = [])"
    by (simp add: no_devices_iff)
next
  show "(NoDevicesFound \<in> set (print_device_info devices)) = (total_devices devices = 0)"
    by (rule no_devices_iff)
next
  assume "total_devices devices \<noteq> 0 \<and> usb_devices devices \<noteq> []"
  then show "UsbDetailsHeading (length (usb_devices devices)) \<in> set (print_device_info devices)"
    by (simp add: details_rendered)
next
  assume a: "get_serial_ports glob = [] \<and> get_usb_device_info u = (printed, Inr ds)"
  then show "detect_arduino_devices glob u =
        (Scanning # printed,
         Inr \<lparr> serial_ports = [], usb_devices = ds, total_devices = 0 \<rparr>)"
    by (simp add: detect_arduino_devices_def)
  show "print_device_info \<lparr> serial_ports = [], usb_devices = ds, total_devices = 0 \<rparr> =
        [BlankAndRule, Title, Rule, NoDevicesFound, TipsHeading, TipConnect, TipCable, TipPort]"
    by (simp add: print_device_info_def)
  from a show "main glob u =
        ([ProgramName, ProgramPurpose, Scanning] @ printed @
         [BlankAndRule, Title, Rule, NoDevicesFound, TipsHeading, TipConnect, TipCable, TipPort,
          ClosingRule], Inr ())"
    by (simp add: main_def detect_arduino_devices_def print_device_info_def)
qed

text \<open>
  No device files, and a topology in which an official board is found: the report is the
  notice. One device file and the same board: the report has no notice and has the USB
  device details.
\<close>

theorem zero_branch_by_path_count_witness:
  "get_usb_device_info
     (Parsed (JObj [(''SPUSBDataType'',
        JArr [JObj [(''_items'', JArr [JObj [(''vendor_id'', JStr ''0x2341'')]])]])])) =
     ([], Inr [make_device_info [(''vendor_id'', JStr ''0x2341'')] ''0x2341'']) \<and>
   main (\<lambda>pattern. [])
     (Parsed (JObj [(''SPUSBDataType'',
        JArr [JObj [(''_items'', JArr [JObj [(''vendor_id'', JStr ''0x2341'')]])]])])) =
     ([ProgramName, ProgramPurpose, Scanning, BlankAndRule, Title, Rule, NoDevicesFound,
       TipsHeading, TipConnect, TipCable, TipPort, ClosingRule], Inr ()) \<and>
   NoDevicesFound \<notin> set (print_device_info
     \<lparr> serial_ports = [''/dev/cu.usbmodem1''],
       usb_devices = [make_device_info [(''vendor_id'', JStr ''0x2341'')] ''0x2341''],
       total_devices = 1 \<rparr>) \<and>
   UsbDetailsHeading 1 \<in> set (print_device_info
     \<lparr> serial_ports = [''/dev/cu.usbmodem1''],
       usb_devices = [make_device_info [(''vendor_id'', JStr ''0x2341'')] ''0x2341''],
       total_devices = 1 \<rparr>)"
proof -
  let ?u = "Parsed (JObj [(''SPUSBDataType'',
        JArr [JObj [(''_items'', JArr [JObj [(''vendor_id'', JStr ''0x2341'')]])]])])"
  let ?r = "\<lparr> serial_ports = [''/dev/cu.usbmodem1''],
       usb_devices = [make_device_info [(''vendor_id'', JStr ''0x2341'')] ''0x2341''],
       total_devices = 1 \<rparr>"
  from zero_branch_by_path_count[of "\<lambda>pattern. []" ?u "[]" "[]" ?r]
  have n: "NoDevicesFound \<notin> set (print_device_info ?r)"
    and h: "UsbDetailsHeading 1 \<in> set (print_device_info ?r)"
    by simp_all
  have g: "get_usb_device_info ?u =
      ([], Inr [make_device_info [(''vendor_id'', JStr ''0x2341'')] ''0x2341''])"
    by (simp add: get_usb_device_info_def try_body_def dict_get_def search_bus_def dict_has_def
          search_usb_tree_JArr visit_def normalized_def lower_2341 lower_Nil is_arduino_def
          ARDUINO_IDS_def)
  have p: "get_serial_ports (\<lambda>pattern. []) = []"
    by (simp add: no_matches)
  from zero_branch_by_path_count[of "\<lambda>pattern. []" ?u "[]"
         "[make_device_info [(''vendor_id'', JStr ''0x2341'')] ''0x2341'']" ?r] g p
  have "main (\<lambda>pattern. []) ?u =
     ([ProgramName, ProgramPurpose, Scanning, BlankAndRule, Title, Rule, NoDevicesFound,
       TipsHeading, TipConnect, TipCable, TipPort, ClosingRule], Inr ())"
    by simp
  with g n h show ?thesis
    by simp
qed

text \<open>
  C10. The predicate is never applied to the top-level bus entries: for buses that are
  dicts, the result consists of the records found in each bus's child sequence, in the
  order of the buses, and of nothing else.
\<close>

theorem buses_not_classified:
  "list_all bus_ok buses \<and> map_of data ''SPUSBDataType'' = Some (JArr buses) \<longrightarrow>
     get_usb_device_info (Parsed (JObj data)) = ([], Inr (concat (map below_bus buses)))"
proof
  assume a: "list_all bus_ok buses \<and> map_of data ''SPUSBDataType'' = Some (JArr buses)"
  then have "search_bus bus acc = Inr (acc @ below_bus bus)" if "bus \<in> set buses" for bus acc
    using that by (simp add: list_all_iff search_bus_ok)
  then have "for_loop search_bus buses [] = Inr ([] @ concat (map below_bus buses))"
    by (rule for_loop_append[of buses search_bus below_bus "[]"])
  with a show "get_usb_device_info (Parsed (JObj data)) = ([], Inr (concat (map below_bus buses)))"
    by (simp add: get_usb_device_info_def try_body_def dict_get_def)
qed

text \<open>
  A bus entry that itself satisfies the predicate and has no children: nothing is
  returned.
\<close>

theorem buses_not_classified_witness:
  "candidate [(''_name'', JStr ''Arduino Uno''), (''vendor_id'', JStr ''0x2341'')] \<and>
   get_usb_device_info
     (Parsed (JObj [(''SPUSBDataType'',
        JArr [JObj [(''_name'', JStr ''Arduino Uno''), (''vendor_id'', JStr ''0x2341'')]])])) =
   ([], Inr [])"
proof -
  let ?bus = "[(''_name'', JStr ''Arduino Uno''), (''vendor_id'', JStr ''0x2341'')]"
  have "usb_node ?bus"
    by (simp add: usb_node_def str_or_absent_def)
  then have c: "candidate ?bus"
    by (simp add: candidate_usb_node text_of_def lower_2341 lower_Arduino_Uno
          is_arduino_def ARDUINO_IDS_def)
  have "list_all bus_ok [JObj ?bus]"
    by (simp add: bus_ok_def)
  moreover have "below_bus (JObj ?bus) = []"
    by (simp add: below_bus_def)
  ultimately have "get_usb_device_info (Parsed (JObj [(''SPUSBDataType'', JArr [JObj ?bus])])) =
      ([], Inr [])"
    using buses_not_classified[of "[JObj ?bus]" "[(''SPUSBDataType'', JArr [JObj ?bus])]"]
    by simp
  with c show ?thesis
    by (rule conjI)
qed

end
